theory Spec2Isabelle
  imports Complex_Main
begin

section \<open>Frank-Starling curve analysis: the numeric core of app.py\<close>

text \<open>
  The program fits the 4-parameter logistic curve
  \<^verbatim>\<open>A2 + (A1 - A2) / (1 + (x/x0)**p)\<close> to a handful of (volume, response) samples.
  Python floats are idealised as real numbers: rounding, overflow and underflow are not
  modelled. What is modelled is every way the arithmetic of the source leaves the real
  numbers: a division by zero, and a negative base raised to a fractional power.
\<close>

subsection \<open>Python arithmetic on floats\<close>

text \<open>
  On Python scalars a step can leave the real numbers for good. \<open>DivByZero\<close>: Python
  raises ZeroDivisionError. \<open>NotReal\<close>: Python returns a complex number.
\<close>

datatype fault = DivByZero | NotReal

type_synonym val = "fault + real"

definition and_then :: "'e + 'a \<Rightarrow> ('a \<Rightarrow> 'e + 'b) \<Rightarrow> 'e + 'b" where
  "and_then m f = (case m of Inl e \<Rightarrow> Inl e | Inr v \<Rightarrow> f v)"

definition py_truediv :: "real \<Rightarrow> real \<Rightarrow> val" where
  "py_truediv a b = (if b = 0 then Inl DivByZero else Inr (a / b))"

text \<open>
  \<^verbatim>\<open>b ** e\<close> on Python floats: anything to the power 0 is 1; zero to a negative power divides
  by zero; a positive base is the real power; a negative base has a real power only for
  an integral exponent.
\<close>

definition py_pow :: "real \<Rightarrow> real \<Rightarrow> val" where
  "py_pow b e =
     (if e = 0 then Inr 1
      else if b = 0 then (if e < 0 then Inl DivByZero else Inr 0)
      else if 0 < b then Inr (b powr e)
      else if e \<in> \<int> then Inr (b powi \<lfloor>e\<rfloor>)
      else Inl NotReal)"

subsection \<open>logistic\_function (app.py, lines 28--30)\<close>

text \<open>On a scalar \<open>x\<close>: the source expression, operation by operation.\<close>

definition logistic_function :: "real \<Rightarrow> real \<Rightarrow> real \<Rightarrow> real \<Rightarrow> real \<Rightarrow> val" where
  "logistic_function x A1 A2 x0 p =
     and_then (py_truediv x x0) (\<lambda>q.
     and_then (py_pow q p) (\<lambda>w.
     and_then (py_truediv (A1 - A2) (1 + w)) (\<lambda>d.
     Inr (A2 + d))))"

text \<open>
  On a numpy array \<open>x\<close> the same expression runs with every operator broadcast over
  the array, and numpy does not raise: an element is a finite number, an infinity or
  nan, and the arithmetic goes on through the infinities (IEEE 754). Zero has no sign
  here, as the floats are read as reals: a division of a non-zero number by zero takes
  the sign of the numerator.
\<close>

datatype npfloat = Fin real | PInf | NInf | NaN

definition np_div :: "real \<Rightarrow> real \<Rightarrow> npfloat" where
  "np_div a b =
     (if b \<noteq> 0 then Fin (a / b)
      else if a = 0 then NaN else if 0 < a then PInf else NInf)"

definition np_power :: "npfloat \<Rightarrow> real \<Rightarrow> npfloat" where
  "np_power b e =
     (if e = 0 then Fin 1
      else case b of
        NaN \<Rightarrow> NaN
      | PInf \<Rightarrow> (if 0 < e then PInf else Fin 0)
      | NInf \<Rightarrow> (if 0 < e then (if e \<in> \<int> \<and> odd \<lfloor>e\<rfloor> then NInf else PInf) else Fin 0)
      | Fin v \<Rightarrow>
          (if v = 0 then (if e < 0 then PInf else Fin 0)
           else if 0 < v then Fin (v powr e)
           else if e \<in> \<int> then Fin (v powi \<lfloor>e\<rfloor>)
           else NaN))"

definition np_add :: "real \<Rightarrow> npfloat \<Rightarrow> npfloat" where
  "np_add c w = (case w of Fin v \<Rightarrow> Fin (c + v) | PInf \<Rightarrow> PInf | NInf \<Rightarrow> NInf | NaN \<Rightarrow> NaN)"

definition np_rdiv :: "real \<Rightarrow> npfloat \<Rightarrow> npfloat" where
  "np_rdiv c d = (case d of Fin v \<Rightarrow> np_div c v | PInf \<Rightarrow> Fin 0 | NInf \<Rightarrow> Fin 0 | NaN \<Rightarrow> NaN)"

text \<open>The four broadcasts of line 30, in the order Python evaluates them.\<close>

definition np_truediv_scalar :: "real list \<Rightarrow> real \<Rightarrow> npfloat list" where
  "np_truediv_scalar xs c = map (\<lambda>v. np_div v c) xs"

definition np_pow_scalar :: "npfloat list \<Rightarrow> real \<Rightarrow> npfloat list" where
  "np_pow_scalar qs e = map (\<lambda>q. np_power q e) qs"

definition np_scalar_add :: "real \<Rightarrow> npfloat list \<Rightarrow> npfloat list" where
  "np_scalar_add c ws = map (np_add c) ws"

definition np_scalar_truediv :: "real \<Rightarrow> npfloat list \<Rightarrow> npfloat list" where
  "np_scalar_truediv c ds = map (np_rdiv c) ds"

definition logistic_function_array ::
  "real list \<Rightarrow> real \<Rightarrow> real \<Rightarrow> real \<Rightarrow> real \<Rightarrow> npfloat list" where
  "logistic_function_array xs A1 A2 x0 p =
     np_scalar_add A2
       (np_scalar_truediv (A1 - A2)
         (np_scalar_add 1 (np_pow_scalar (np_truediv_scalar xs x0) p)))"

text \<open>The formula of the specification, read in the real numbers.\<close>

definition evaluate_spec :: "real \<Rightarrow> real \<Rightarrow> real \<Rightarrow> real \<Rightarrow> real \<Rightarrow> real" where
  "evaluate_spec x A1 A2 x0 p = A2 + (A1 - A2) / (1 + (x / x0) powr p)"

subsection \<open>Exceptions and the builtins used by the fit\<close>

text \<open>A raised exception: its class name and \<^verbatim>\<open>str(e)\<close>.\<close>

datatype exn = Exn (exn_class: string) (exn_str: string)

text \<open>
  The builtins \<^verbatim>\<open>min\<close> and \<^verbatim>\<open>max\<close> walk the sequence and keep the first
  smallest (largest) element; on an empty sequence they raise ValueError (message as
  worded by CPython up to 3.11).
\<close>

fun min_loop :: "real \<Rightarrow> real list \<Rightarrow> real" where
  "min_loop m [] = m"
| "min_loop m (v # vs) = min_loop (if v < m then v else m) vs"

fun max_loop :: "real \<Rightarrow> real list \<Rightarrow> real" where
  "max_loop m [] = m"
| "max_loop m (v # vs) = max_loop (if v > m then v else m) vs"

definition py_min :: "real list \<Rightarrow> exn + real" where
  "py_min ys = (case ys of
       [] \<Rightarrow> Inl (Exn ''ValueError'' ''min() arg is an empty sequence'')
     | v # vs \<Rightarrow> Inr (min_loop v vs))"

definition py_max :: "real list \<Rightarrow> exn + real" where
  "py_max ys = (case ys of
       [] \<Rightarrow> Inl (Exn ''ValueError'' ''max() arg is an empty sequence'')
     | v # vs \<Rightarrow> Inr (max_loop v vs))"

text \<open>
  \<^verbatim>\<open>np.median\<close>: the array is partitioned so that the middle position (the two middle
  positions, for an even size) holds what a full sort would put there, and the mean of
  that slice is returned. The mean of an empty slice is nan: \<open>None\<close>.
\<close>

definition np_mean :: "real list \<Rightarrow> real option" where
  "np_mean vs = (if vs = [] then None else Some (sum_list vs / real (length vs)))"

definition np_median :: "real list \<Rightarrow> real option" where
  "np_median a =
     (let part = sort a;
          index = length part div 2
      in if length part mod 2 = 1
         then np_mean (take 1 (drop index part))
         else np_mean (take 2 (drop (index - 1) part)))"

subsection \<open>fit\_frank\_starling\_curve (app.py, lines 77--95)\<close>

text \<open>
  Lines 82--89: the initial guess and the pair of bound vectors. The median of an empty
  \<open>x\<close> is nan, but then \<^verbatim>\<open>min(x)\<close> on line 87 raises before the guess is used,
  so the last branch below is never taken.
\<close>

record fit_config =
  initial_guess :: "real list"
  bounds :: "real list \<times> real list"

definition build_fit_config :: "real list \<Rightarrow> real list \<Rightarrow> exn + fit_config" where
  "build_fit_config x y =
     and_then (py_min y) (\<lambda>min_y.
     and_then (py_max y) (\<lambda>max_y.
     and_then (py_min x) (\<lambda>min_x.
     and_then (py_max x) (\<lambda>max_x.
       case np_median x of
         Some median_x \<Rightarrow>
           Inr \<lparr> initial_guess = [min_y, max_y, median_x, 1.0],
                 bounds =
                   ([min_y - \<bar>max_y - min_y\<bar>, min_y - \<bar>max_y - min_y\<bar>, min_x * 0.1, 0.1],
                    [max_y + \<bar>max_y - min_y\<bar>, max_y + \<bar>max_y - min_y\<bar>, max_x * 2, 10]) \<rparr>
       | None \<Rightarrow> Inl (Exn ''ValueError'' ''min() arg is an empty sequence'')))))"

abbreviation lower_bounds :: "fit_config \<Rightarrow> real list" where
  "lower_bounds c \<equiv> fst (bounds c)"

abbreviation upper_bounds :: "fit_config \<Rightarrow> real list" where
  "upper_bounds c \<equiv> snd (bounds c)"

text \<open>
  \<^verbatim>\<open>scipy.optimize.curve_fit\<close> is a library routine, not part of the program: it is a
  parameter of the model. It receives the model function, the data, \<^verbatim>\<open>p0\<close>,
  \<^verbatim>\<open>bounds\<close> and \<^verbatim>\<open>maxfev\<close>, and either raises or returns the pair
  \<^verbatim>\<open>(popt, pcov)\<close>. \<open>Inl e\<close> is an exception of class \<^verbatim>\<open>Exception\<close> raised
  anywhere during the call, the evaluations of the model function included; the
  handler on line 94 catches exactly those.
\<close>

type_synonym model_function = "real list \<Rightarrow> real \<Rightarrow> real \<Rightarrow> real \<Rightarrow> real \<Rightarrow> npfloat list"

type_synonym optimizer =
  "model_function \<Rightarrow> real list \<Rightarrow> real list \<Rightarrow> real list \<Rightarrow> real list \<times> real list \<Rightarrow> nat
     \<Rightarrow> exn + real list \<times> real list list"

definition fit_frank_starling_curve :: "optimizer \<Rightarrow> real list \<Rightarrow> real list \<Rightarrow> exn + real list" where
  "fit_frank_starling_curve curve_fit x y =
     (if length x < 5 then Inl (Exn ''ValueError'' ''Need at least 5 data points'')
      else
        and_then (build_fit_config x y) (\<lambda>c.
          case curve_fit logistic_function_array x y (initial_guess c) (bounds c) 5000 of
            Inr (params, _) \<Rightarrow> Inr params
          | Inl e \<Rightarrow> Inl (Exn ''ValueError'' (''Curve fitting failed: '' @ exn_str e))))"

text \<open>
  What the specification asks of the optimizer: a returned parameter vector has the
  size of \<^verbatim>\<open>p0\<close> and lies within the bounds it was given.
\<close>

definition in_bounds :: "real list \<times> real list \<Rightarrow> real list \<Rightarrow> bool" where
  "in_bounds b ps \<longleftrightarrow>
     length ps = length (fst b) \<and> length ps = length (snd b) \<and>
     list_all (\<lambda>i. fst b ! i \<le> ps ! i \<and> ps ! i \<le> snd b ! i) [0..<length ps]"

definition constrained :: "optimizer \<Rightarrow> bool" where
  "constrained curve_fit \<longleftrightarrow>
     (\<forall>f x y p0 b maxfev popt pcov.
        curve_fit f x y p0 b maxfev = Inr (popt, pcov) \<longrightarrow>
          length popt = length p0 \<and> in_bounds b popt)"

subsection \<open>The branching and the interpretation in main (app.py, lines 183--247)\<close>

datatype branch = PromptForData | ScatterPlot | FitCurve

definition main_branch :: "nat \<Rightarrow> branch" where
  "main_branch n = (if n = 0 then PromptForData else if n < 5 then ScatterPlot else FitCurve)"

definition is_fittable :: "nat \<Rightarrow> bool" where
  "is_fittable n \<longleftrightarrow> main_branch n = FitCurve"

text \<open>Indexing the parameter array; the message of the IndexError is abbreviated.\<close>

definition getitem :: "real list \<Rightarrow> nat \<Rightarrow> exn + real" where
  "getitem params i =
     (if i < length params then Inr (params ! i)
      else Inl (Exn ''IndexError'' ''index out of bounds''))"

definition cardiac_reserve :: "real list \<Rightarrow> exn + real" where
  "cardiac_reserve params =
     and_then (getitem params 1) (\<lambda>a2.
     and_then (getitem params 0) (\<lambda>a1. Inr (a2 - a1)))"

definition preload_sensitivity :: "real list \<Rightarrow> exn + string" where
  "preload_sensitivity params =
     and_then (getitem params 3) (\<lambda>p.
       if p > 1.5 then Inr ''High''
       else and_then (getitem params 3) (\<lambda>p'.
         if p' > 0.8 then Inr ''Moderate'' else Inr ''Low''))"

subsection \<open>The configuration as the specification words it\<close>

definition median_spec :: "real list \<Rightarrow> real" where
  "median_spec xs =
     (let s = sort xs; n = length xs
      in if odd n then s ! (n div 2) else (s ! (n div 2 - 1) + s ! (n div 2)) / 2)"

definition spread_spec :: "real list \<Rightarrow> real" where
  "spread_spec y = \<bar>Max (set y) - Min (set y)\<bar>"

definition build_spec :: "real list \<Rightarrow> real list \<Rightarrow> fit_config" where
  "build_spec x y =
     \<lparr> initial_guess = [Min (set y), Max (set y), median_spec x, 1.0],
       bounds =
         ([Min (set y) - spread_spec y, Min (set y) - spread_spec y, 0.1 * Min (set x), 0.1],
          [Max (set y) + spread_spec y, Max (set y) + spread_spec y, 2 * Max (set x), 10]) \<rparr>"

subsection \<open>Sample optimizers and data\<close>

text \<open>
  Two stand-ins for the optimizer, to run the fit on concrete data: one that gives up,
  and one that returns its starting point when that is feasible.
\<close>

definition curve_fit_gives_up :: optimizer where
  "curve_fit_gives_up f x y p0 b maxfev =
     Inl (Exn ''RuntimeError'' ''Optimal parameters not found'')"

definition curve_fit_stays :: optimizer where
  "curve_fit_stays f x y p0 b maxfev =
     (if in_bounds b p0 then Inr (p0, [])
      else Inl (Exn ''ValueError'' ''x0 is infeasible''))"

definition volumes :: "real list" where
  "volumes = [75, 150, 200, 250, 300]"

definition responses :: "real list" where
  "responses = [2, 5, 8, 9, 9.2]"

section \<open>Auxiliary facts\<close>

subsection \<open>The builtins compute the minimum, the maximum and the median\<close>

lemma min_loop_Min: "min_loop m vs = Min (set (m # vs))"
proof (induction vs arbitrary: m)
  case Nil
  then show ?case by simp
next
  case (Cons v vs)
  have "min_loop m (v # vs) = Min (set ((if v < m then v else m) # vs))"
    using Cons.IH by simp
  also have "\<dots> = Min (set (m # v # vs))"
    by (cases "vs = []") (auto simp: min_def)
  finally show ?case .
qed

lemma max_loop_Max: "max_loop m vs = Max (set (m # vs))"
proof (induction vs arbitrary: m)
  case Nil
  then show ?case by simp
next
  case (Cons v vs)
  have "max_loop m (v # vs) = Max (set ((if v > m then v else m) # vs))"
    using Cons.IH by simp
  also have "\<dots> = Max (set (m # v # vs))"
    by (cases "vs = []") (auto simp: max_def)
  finally show ?case .
qed

lemma py_min_Min: "ys \<noteq> [] \<Longrightarrow> py_min ys = Inr (Min (set ys))"
  by (cases ys) (simp_all add: py_min_def min_loop_Min)

lemma py_max_Max: "ys \<noteq> [] \<Longrightarrow> py_max ys = Inr (Max (set ys))"
  by (cases ys) (simp_all add: py_max_def max_loop_Max)

lemma np_median_spec:
  assumes "xs \<noteq> []"
  shows "np_median xs = Some (median_spec xs)"
proof -
  define s where "s = sort xs"
  define n where "n = length xs"
  have len: "length s = n" by (simp add: s_def n_def)
  have npos: "0 < n" using assms by (simp add: n_def)
  show ?thesis
  proof (cases "odd n")
    case True
    have lt: "n div 2 < length s" using npos len by simp
    have "take 1 (drop (n div 2) s) = [s ! (n div 2)]"
      using lt by (metis Cons_nth_drop_Suc One_nat_def take_Suc_Cons take_0)
    then show ?thesis
      using True len
      by (simp add: np_median_def median_spec_def np_mean_def s_def [symmetric]
          n_def [symmetric] odd_iff_mod_2_eq_one Let_def)
  next
    case False
    then have n2: "2 \<le> n" using npos by presburger
    have i1: "n div 2 - 1 < length s" and i2: "Suc (n div 2 - 1) < length s"
      and suc: "Suc (n div 2 - 1) = n div 2"
      using n2 len by auto
    have "take 2 (drop (n div 2 - 1) s) = [s ! (n div 2 - 1), s ! (n div 2)]"
      using i1 i2 suc
      by (metis Cons_nth_drop_Suc One_nat_def Suc_1 take_Suc_Cons take_0)
    then show ?thesis
      using False len
      by (simp add: np_median_def median_spec_def np_mean_def s_def [symmetric]
          n_def [symmetric] odd_iff_mod_2_eq_one Let_def)
  qed
qed

lemma build_fit_config_spec:
  assumes "x \<noteq> []" and "y \<noteq> []"
  shows "build_fit_config x y = Inr (build_spec x y)"
  using assms
  by (simp add: build_fit_config_def and_then_def py_min_Min py_max_Max np_median_spec
      build_spec_def spread_spec_def mult.commute)

subsection \<open>The curve on positive arguments, and the ordering of the configuration\<close>

lemma logistic_function_pos:
  assumes "0 < x" and "0 < x0"
  shows "logistic_function x A1 A2 x0 p = Inr (evaluate_spec x A1 A2 x0 p)"
proof -
  have q: "0 < x / x0" using assms by simp
  have w: "0 \<le> (x / x0) powr p" by simp
  then have d: "1 + (x / x0) powr p \<noteq> 0" by linarith
  show ?thesis
    using assms d
    by (simp add: logistic_function_def and_then_def py_truediv_def py_pow_def
        evaluate_spec_def)
qed

lemma sorted_nth_between:
  assumes "i < length xs"
  shows "Min (set xs) \<le> sort xs ! i \<and> sort xs ! i \<le> Max (set xs)"
proof -
  have "i < length (sort xs)" using assms by simp
  then have "sort xs ! i \<in> set (sort xs)" by (rule nth_mem)
  then have "sort xs ! i \<in> set xs" by simp
  then show ?thesis by simp
qed

lemma median_spec_between:
  assumes "xs \<noteq> []"
  shows "Min (set xs) \<le> median_spec xs \<and> median_spec xs \<le> Max (set xs)"
proof -
  have npos: "0 < length xs" using assms by simp
  have a: "length xs div 2 < length xs" using npos by simp
  have b: "length xs div 2 - 1 < length xs" using npos by linarith
  show ?thesis
    using sorted_nth_between [OF a] sorted_nth_between [OF b]
    by (simp add: median_spec_def Let_def)
qed

lemma build_spec_in_bounds:
  assumes "x \<noteq> []" and "y \<noteq> []" and "\<forall>v\<in>set x. 0 \<le> v"
  shows "in_bounds (bounds (build_spec x y)) (initial_guess (build_spec x y))"
proof -
  have y: "Min (set y) \<le> Max (set y)" using assms(2) by simp
  have m: "Min (set x) \<le> median_spec x" "median_spec x \<le> Max (set x)"
    using median_spec_between [OF assms(1)] by simp_all
  have "Min (set x) \<in> set x" using assms(1) by simp
  then have lo: "0 \<le> Min (set x)" using assms(3) by blast
  then have hi: "0 \<le> Max (set x)" using m by linarith
  have i: "[0..<4] = [0, 1, 2, Suc 2]" by (simp add: upt_rec)
  show ?thesis
    using y m lo hi
    by (simp add: in_bounds_def build_spec_def spread_spec_def i)
qed

lemma logistic_function_array_length:
  "length (logistic_function_array xs A1 A2 x0 p) = length xs"
  by (simp add: logistic_function_array_def np_scalar_add_def np_scalar_truediv_def
      np_pow_scalar_def np_truediv_scalar_def)

lemma logistic_element_pos:
  assumes "0 < v" and "0 < x0"
  shows "np_add A2 (np_rdiv (A1 - A2) (np_add 1 (np_power (np_div v x0) p)))
           = Fin (evaluate_spec v A1 A2 x0 p)"
proof -
  have q: "0 < v / x0" using assms by simp
  have "0 \<le> (v / x0) powr p" by simp
  then have d: "1 + (v / x0) powr p \<noteq> 0" by linarith
  show ?thesis
    using assms q d
    by (simp add: np_div_def np_power_def np_add_def np_rdiv_def evaluate_spec_def)
qed

lemma logistic_function_array_pos:
  assumes "0 < x0" and "\<forall>v\<in>set xs. 0 < v"
  shows "logistic_function_array xs A1 A2 x0 p = map (\<lambda>v. Fin (evaluate_spec v A1 A2 x0 p)) xs"
  using assms
  by (simp add: logistic_function_array_def np_scalar_add_def np_scalar_truediv_def
      np_pow_scalar_def np_truediv_scalar_def logistic_element_pos)

text \<open>
  Where the scalar call raises, the array call goes through an infinity and ends on a
  finite number: a volume of 0 with a negative exponent, and \<open>x0 = 0\<close>.
\<close>

lemma logistic_function_array_through_inf:
  "logistic_function_array [0, 2] 1 3 2 (- 1) = [Fin 3, Fin 2]"
  "logistic_function 0 1 3 2 (- 1) = Inl DivByZero"
  "logistic_function_array [75] 2 9.2 0 1 = [Fin 9.2]"
  by (simp_all add: logistic_function_array_def np_scalar_add_def np_scalar_truediv_def
      np_pow_scalar_def np_truediv_scalar_def np_div_def np_power_def np_add_def np_rdiv_def
      logistic_function_def and_then_def py_truediv_def py_pow_def)

subsection \<open>The fit, once past its length check\<close>

lemma fit_reaches_optimizer:
  assumes "5 \<le> length x" and "length x = length y"
  shows "fit_frank_starling_curve curve_fit x y =
           (case curve_fit logistic_function_array x y (initial_guess (build_spec x y))
                   (bounds (build_spec x y)) 5000 of
              Inr (params, _) \<Rightarrow> Inr params
            | Inl e \<Rightarrow> Inl (Exn ''ValueError'' (''Curve fitting failed: '' @ exn_str e)))"
proof -
  have "x \<noteq> []" and "y \<noteq> []" using assms by auto
  then have "build_fit_config x y = Inr (build_spec x y)" by (rule build_fit_config_spec)
  then show ?thesis
    using assms(1) by (simp add: fit_frank_starling_curve_def and_then_def)
qed

lemma build_fit_config_raises:
  assumes "build_fit_config x y = Inl e"
  shows "e = Exn ''ValueError'' ''min() arg is an empty sequence''
       \<or> e = Exn ''ValueError'' ''max() arg is an empty sequence''"
  using assms
  by (auto simp: build_fit_config_def and_then_def py_min_def py_max_def
      split: sum.splits list.splits option.splits)

subsection \<open>The sample data and the sample optimizers\<close>

lemma sample_config:
  "build_spec volumes responses =
     \<lparr> initial_guess = [2, 9.2, 200, 1],
       bounds = ([- 5.2, - 5.2, 7.5, 0.1], [16.4, 16.4, 600, 10]) \<rparr>"
  by (simp add: build_spec_def spread_spec_def median_spec_def volumes_def responses_def)

lemma sample_lengths: "5 \<le> length volumes" "length volumes = length responses"
  "1 \<le> length volumes"
  by (simp_all add: volumes_def responses_def)

lemma sample_spread: "Min (set responses) < Max (set responses)"
  by (simp add: responses_def)

lemma sample_volumes_nonneg: "\<forall>v\<in>set volumes. 0 \<le> v"
  by (simp add: volumes_def)

lemma sample_volumes_pos: "\<forall>v\<in>set volumes. 0 < v"
  by (simp add: volumes_def)

lemma constrained_curve_fit_stays: "constrained curve_fit_stays"
  by (auto simp: constrained_def curve_fit_stays_def split: if_splits)

section \<open>The claims\<close>

text \<open>
  Claim C1, as stated, asks for the value of the formula at every \<open>x > 0\<close> and
  \<open>x0 \<noteq> 0\<close>. It fails for a negative \<open>x0\<close>: at \<open>x = 1\<close>, \<open>x0 = -1\<close>,
  \<open>p = 1\<close> the denominator \<open>1 + (x/x0)**p\<close> is zero and the division fails.
\<close>

theorem evaluate_negative_x0_counterexample:
  "logistic_function 1 1 0 (- 1) 1 = Inl DivByZero"
  by (simp add: logistic_function_def and_then_def py_truediv_def py_pow_def)

text \<open>
  Claim C1, amended: for every scalar \<open>x > 0\<close> and parameters with \<open>x0 > 0\<close>, the
  curve is exactly \<open>A2 + (A1 - A2) / (1 + (x / x0)^p)\<close>, and applied to an ordered
  sequence of such x values it returns the same-shaped sequence of the elementwise
  results: as long as the input, with the value of the formula at each position.
\<close>

theorem evaluate_positive:
  assumes "0 < x0"
  shows "(0 < x \<longrightarrow> logistic_function x A1 A2 x0 p = Inr (A2 + (A1 - A2) / (1 + (x / x0) powr p)))
       \<and> length (logistic_function_array xs A1 A2 x0 p) = length xs
       \<and> ((\<forall>v\<in>set xs. 0 < v) \<longrightarrow>
            logistic_function_array xs A1 A2 x0 p
              = map (\<lambda>v. Fin (A2 + (A1 - A2) / (1 + (v / x0) powr p))) xs)"
  using assms logistic_function_pos [of x x0 A1 A2 p]
    logistic_function_array_pos [of x0 xs A1 A2 p]
  by (simp add: logistic_function_array_length evaluate_spec_def)

theorem evaluate_positive_witness:
  "(0::real) < 2
   \<and> logistic_function 2 1 3 2 1 = Inr 2
   \<and> length (logistic_function_array [2, 6] 1 3 2 1) = 2
   \<and> list_all (\<lambda>v. 0 < v) [2, 6 :: real]
   \<and> logistic_function_array [2, 6] 1 3 2 1 = [Fin 2, Fin (5 / 2)]"
proof -
  have h: "(0::real) < 2" by simp
  show ?thesis
    using evaluate_positive [OF h, of 2 1 3 1 "[2, 6]"] by simp
qed

text \<open>
  Claim C2, as stated, has the error of a too small dataset carry the actual count. The
  error raised is the same for 2 samples and for 3: a ValueError with a fixed message,
  which names the required count only.
\<close>

theorem insufficient_error_without_count_counterexample:
  "fit_frank_starling_curve curve_fit_gives_up [75, 150] [2, 5]
     = Inl (Exn ''ValueError'' ''Need at least 5 data points'')
   \<and> fit_frank_starling_curve curve_fit_gives_up [75, 150, 200] [2, 5, 8]
     = Inl (Exn ''ValueError'' ''Need at least 5 data points'')"
  by (simp add: fit_frank_starling_curve_def)

text \<open>
  Claim C2, amended: the caller's gate lets \<open>n\<close> samples through exactly when
  \<open>n \<ge> 5\<close>, and the fit has the same threshold: with fewer than 5 samples it raises
  ValueError with the fixed message "Need at least 5 data points" (the required count,
  not the actual one), and for data that passed the gate it never raises that error.
\<close>

theorem gate_and_fit_agree:
  "(is_fittable n \<longleftrightarrow> 5 \<le> n)
   \<and> (length x < 5 \<longrightarrow>
        fit_frank_starling_curve curve_fit x y
          = Inl (Exn ''ValueError'' ''Need at least 5 data points''))
   \<and> (is_fittable (length x) \<longrightarrow>
        fit_frank_starling_curve curve_fit x y
          \<noteq> Inl (Exn ''ValueError'' ''Need at least 5 data points''))"
proof -
  have gate: "is_fittable m \<longleftrightarrow> 5 \<le> m" for m
    by (simp add: is_fittable_def main_branch_def)
  have low: "length x < 5 \<longrightarrow>
      fit_frank_starling_curve curve_fit x y
        = Inl (Exn ''ValueError'' ''Need at least 5 data points'')"
    by (simp add: fit_frank_starling_curve_def)
  have high: "fit_frank_starling_curve curve_fit x y
        \<noteq> Inl (Exn ''ValueError'' ''Need at least 5 data points'')"
    if "5 \<le> length x"
  proof (cases "build_fit_config x y")
    case (Inl e)
    then show ?thesis
      using that build_fit_config_raises [OF Inl]
      by (auto simp: fit_frank_starling_curve_def and_then_def)
  next
    case (Inr c)
    then show ?thesis
      using that
      by (auto simp: fit_frank_starling_curve_def and_then_def split: sum.splits)
  qed
  show ?thesis using gate low high by blast
qed

theorem gate_and_fit_agree_witness:
  "is_fittable 5 \<and> \<not> is_fittable 4
   \<and> length [75, 150 :: real] < 5
   \<and> fit_frank_starling_curve curve_fit_gives_up [75, 150] [2, 5]
        = Inl (Exn ''ValueError'' ''Need at least 5 data points'')
   \<and> is_fittable (length volumes)
   \<and> fit_frank_starling_curve curve_fit_gives_up volumes responses
        \<noteq> Inl (Exn ''ValueError'' ''Need at least 5 data points'')"
  using gate_and_fit_agree [of 5 "[75, 150]" curve_fit_gives_up "[2, 5]"]
    gate_and_fit_agree [of 4 volumes curve_fit_gives_up responses]
    gate_and_fit_agree [of "length volumes" volumes curve_fit_gives_up responses]
    sample_lengths(1)
  by simp

text \<open>
  Claim C3: for \<open>len(x) = len(y) \<ge> 1\<close> the configuration built on lines 82--89 is the
  reference one: initial guess \<open>[min y, max y, median x, 1]\<close> and, with
  \<open>spread = |max y - min y|\<close>, lower bounds
  \<open>[min y - spread, min y - spread, 0.1 * min x, 0.1]\<close> and upper bounds
  \<open>[max y + spread, max y + spread, 2 * max x, 10]\<close>.
\<close>

theorem fit_config_refines_spec:
  assumes "length x = length y" and "1 \<le> length x"
  shows "build_fit_config x y = Inr (build_spec x y)
       \<and> initial_guess (build_spec x y) = [Min (set y), Max (set y), median_spec x, 1.0]
       \<and> lower_bounds (build_spec x y) =
           [Min (set y) - \<bar>Max (set y) - Min (set y)\<bar>,
            Min (set y) - \<bar>Max (set y) - Min (set y)\<bar>, 0.1 * Min (set x), 0.1]
       \<and> upper_bounds (build_spec x y) =
           [Max (set y) + \<bar>Max (set y) - Min (set y)\<bar>,
            Max (set y) + \<bar>Max (set y) - Min (set y)\<bar>, 2 * Max (set x), 10]"
proof -
  have "x \<noteq> []" and "y \<noteq> []" using assms by auto
  then have "build_fit_config x y = Inr (build_spec x y)" by (rule build_fit_config_spec)
  then show ?thesis by (simp add: build_spec_def spread_spec_def)
qed

theorem fit_config_refines_spec_witness:
  "length volumes = length responses \<and> 1 \<le> length volumes
   \<and> build_fit_config volumes responses =
       Inr \<lparr> initial_guess = [2, 9.2, 200, 1],
             bounds = ([- 5.2, - 5.2, 7.5, 0.1], [16.4, 16.4, 600, 10]) \<rparr>"
  using fit_config_refines_spec [OF sample_lengths(2) sample_lengths(3)] sample_lengths
  by (simp add: sample_config)

text \<open>
  Claim C4: with at least 5 samples and \<open>min y < max y\<close>, the fit either returns 4
  parameters, each within the constructed bounds, or raises the fit-failure error
  (ValueError "Curve fitting failed: ..."). The optimizer is the library's: the
  theorem holds for every optimizer that keeps its result within the bounds it is given.
\<close>

theorem fit_within_bounds_or_fails:
  assumes "constrained curve_fit" and "5 \<le> length x" and "length x = length y"
    and "Min (set y) < Max (set y)"
  shows "\<exists>c. build_fit_config x y = Inr c
          \<and> ((\<exists>params. fit_frank_starling_curve curve_fit x y = Inr params
                 \<and> length params = 4 \<and> in_bounds (bounds c) params)
             \<or> (\<exists>msg. fit_frank_starling_curve curve_fit x y
                   = Inl (Exn ''ValueError'' (''Curve fitting failed: '' @ msg))))"
proof -
  let ?c = "build_spec x y"
  have ne: "x \<noteq> []" "y \<noteq> []" using assms by auto
  have cfg: "build_fit_config x y = Inr ?c" using ne by (rule build_fit_config_spec)
  have fit: "fit_frank_starling_curve curve_fit x y =
      (case curve_fit logistic_function_array x y (initial_guess ?c) (bounds ?c) 5000 of
         Inr (params, _) \<Rightarrow> Inr params
       | Inl e \<Rightarrow> Inl (Exn ''ValueError'' (''Curve fitting failed: '' @ exn_str e)))"
    using assms(2,3) by (rule fit_reaches_optimizer)
  show ?thesis
  proof (cases "curve_fit logistic_function_array x y (initial_guess ?c) (bounds ?c) 5000")
    case (Inl e)
    then show ?thesis using cfg fit by simp
  next
    case (Inr r)
    obtain popt pcov where r: "r = (popt, pcov)" by (cases r)
    have "length popt = length (initial_guess ?c) \<and> in_bounds (bounds ?c) popt"
      using assms(1) Inr r unfolding constrained_def by blast
    then have len: "length popt = 4" and inb: "in_bounds (bounds ?c) popt"
      by (simp_all add: build_spec_def)
    show ?thesis using cfg fit Inr r len inb by simp
  qed
qed

theorem fit_within_bounds_or_fails_witness:
  "constrained curve_fit_stays \<and> 5 \<le> length volumes \<and> length volumes = length responses
   \<and> Min (set responses) < Max (set responses)
   \<and> build_fit_config volumes responses =
       Inr \<lparr> initial_guess = [2, 9.2, 200, 1],
             bounds = ([- 5.2, - 5.2, 7.5, 0.1], [16.4, 16.4, 600, 10]) \<rparr>
   \<and> fit_frank_starling_curve curve_fit_stays volumes responses = Inr [2, 9.2, 200, 1]"
proof -
  have i: "[0..<4] = [0, 1, 2, Suc 2]" by (simp add: upt_rec)
  have run: "fit_frank_starling_curve curve_fit_stays volumes responses = Inr [2, 9.2, 200, 1]"
    by (simp add: fit_reaches_optimizer [OF sample_lengths(1,2)] sample_config
        curve_fit_stays_def in_bounds_def i)
  have "volumes \<noteq> []" and "responses \<noteq> []"
    by (simp_all add: volumes_def responses_def)
  then have cfg: "build_fit_config volumes responses = Inr (build_spec volumes responses)"
    by (rule build_fit_config_spec)
  show ?thesis
    using fit_within_bounds_or_fails [OF constrained_curve_fit_stays sample_lengths(1,2)
        sample_spread]
      constrained_curve_fit_stays sample_lengths sample_spread run cfg
    by (simp add: sample_config)
qed

text \<open>
  Claim C5: for parameters \<open>(A1, A2, x0, p)\<close> the cardiac reserve is \<open>A2 - A1\<close>,
  unclamped (so possibly negative), and the preload sensitivity is High if \<open>p > 1.5\<close>,
  Moderate if \<open>0.8 < p \<le> 1.5\<close> and Low if \<open>p \<le> 0.8\<close>.
\<close>

theorem summarize_interpretation:
  "cardiac_reserve [A1, A2, x0, p] = Inr (A2 - A1)
   \<and> (p > 1.5 \<longrightarrow> preload_sensitivity [A1, A2, x0, p] = Inr ''High'')
   \<and> (0.8 < p \<and> p \<le> 1.5 \<longrightarrow> preload_sensitivity [A1, A2, x0, p] = Inr ''Moderate'')
   \<and> (p \<le> 0.8 \<longrightarrow> preload_sensitivity [A1, A2, x0, p] = Inr ''Low'')"
  by (simp add: cardiac_reserve_def preload_sensitivity_def getitem_def and_then_def)

theorem summarize_interpretation_witness:
  "cardiac_reserve [9, 2, 200, 1] = Inr (- 7)
   \<and> (0.8 < (1::real) \<and> (1::real) \<le> 1.5)
   \<and> preload_sensitivity [9, 2, 200, 1] = Inr ''Moderate''
   \<and> (2 > (1.5::real)) \<and> preload_sensitivity [9, 2, 200, 2] = Inr ''High''
   \<and> ((0.8::real) \<le> 0.8) \<and> preload_sensitivity [9, 2, 200, 0.8] = Inr ''Low''"
  using summarize_interpretation [of 9 2 200 1]
    summarize_interpretation [of 9 2 200 2]
    summarize_interpretation [of 9 2 200 "0.8"]
  by simp

text \<open>
  Claim C6: for every non-degenerate dataset (\<open>min y < max y\<close>,
  \<open>len(x) = len(y) \<ge> 1\<close>) the configuration satisfies
  \<open>lower[i] \<le> guess[i] \<le> upper[i]\<close> at each of its 4 indices. A dataset is a
  sequence of samples whose x is a volume, a non-negative real: that is the last
  hypothesis.
\<close>

theorem guess_within_bounds:
  assumes "length x = length y" and "1 \<le> length x" and "Min (set y) < Max (set y)"
    and "\<forall>v\<in>set x. 0 \<le> v"
  shows "\<exists>c. build_fit_config x y = Inr c
          \<and> length (initial_guess c) = 4 \<and> in_bounds (bounds c) (initial_guess c)"
proof -
  have ne: "x \<noteq> []" "y \<noteq> []" using assms by auto
  have "length (initial_guess (build_spec x y)) = 4" by (simp add: build_spec_def)
  then show ?thesis
    using build_fit_config_spec [OF ne] build_spec_in_bounds [OF ne assms(4)] by blast
qed

theorem guess_within_bounds_witness:
  "length volumes = length responses \<and> 1 \<le> length volumes
   \<and> Min (set responses) < Max (set responses) \<and> list_all (\<lambda>v. 0 \<le> v) volumes
   \<and> build_fit_config volumes responses =
       Inr \<lparr> initial_guess = [2, 9.2, 200, 1],
             bounds = ([- 5.2, - 5.2, 7.5, 0.1], [16.4, 16.4, 600, 10]) \<rparr>
   \<and> in_bounds ([- 5.2, - 5.2, 7.5, 0.1], [16.4, 16.4, 600, 10]) [2, 9.2, 200, 1]"
proof -
  have "volumes \<noteq> []" and "responses \<noteq> []"
    by (simp_all add: volumes_def responses_def)
  then have cfg: "build_fit_config volumes responses = Inr (build_spec volumes responses)"
    by (rule build_fit_config_spec)
  show ?thesis
    using guess_within_bounds [OF sample_lengths(2,3) sample_spread sample_volumes_nonneg]
      sample_lengths sample_spread sample_volumes_nonneg cfg
    by (simp add: sample_config list_all_iff)
qed

text \<open>
  Claim C7, as stated, has a strictly positive lower bound for \<open>x0\<close> whenever the
  volumes are non-negative. A volume of 0 makes that bound \<open>0.1 * 0 = 0\<close>, and at
  \<open>x0 = 0\<close> the curve divides by zero.
\<close>

theorem x0_lower_bound_zero_counterexample:
  "build_fit_config [0, 75, 150, 200, 250] responses =
     Inr \<lparr> initial_guess = [2, 9.2, 150, 1],
           bounds = ([- 5.2, - 5.2, 0, 0.1], [16.4, 16.4, 500, 10]) \<rparr>
   \<and> logistic_function 75 2 9.2 0 1 = Inl DivByZero"
proof -
  have "build_fit_config [0, 75, 150, 200, 250] responses
      = Inr (build_spec [0, 75, 150, 200, 250] responses)"
    by (rule build_fit_config_spec) (simp_all add: responses_def)
  then show ?thesis
    by (simp add: build_spec_def spread_spec_def median_spec_def responses_def
        logistic_function_def and_then_def py_truediv_def)
qed

text \<open>
  Claim C7, amended: for every dataset whose x values are all strictly positive, the
  lower bound of \<open>x0\<close> is strictly positive; so every \<open>x0\<close> at or above it is
  non-zero, and the curve at any data point with such an \<open>x0\<close> has a value: no division
  by zero.
\<close>

theorem x0_lower_bound_positive:
  assumes "length x = length y" and "1 \<le> length x" and "\<forall>v\<in>set x. 0 < v"
  shows "\<exists>c. build_fit_config x y = Inr c
          \<and> 0 < lower_bounds c ! 2
          \<and> (\<forall>x0. lower_bounds c ! 2 \<le> x0 \<longrightarrow>
                x0 \<noteq> 0
                \<and> (\<forall>v\<in>set x. \<forall>A1 A2 p.
                      logistic_function v A1 A2 x0 p
                        = Inr (A2 + (A1 - A2) / (1 + (v / x0) powr p))))"
proof -
  let ?c = "build_spec x y"
  have ne: "x \<noteq> []" "y \<noteq> []" using assms by auto
  have cfg: "build_fit_config x y = Inr ?c" using ne by (rule build_fit_config_spec)
  have "Min (set x) \<in> set x" using ne(1) by simp
  then have "0 < Min (set x)" using assms(3) by blast
  then have lo: "0 < lower_bounds ?c ! 2" by (simp add: build_spec_def)
  have ev: "logistic_function v A1 A2 x0 p = Inr (A2 + (A1 - A2) / (1 + (v / x0) powr p))"
    if "lower_bounds ?c ! 2 \<le> x0" and "v \<in> set x" for x0 v A1 A2 p
  proof -
    have "0 < x0" using lo that(1) by linarith
    moreover have "0 < v" using assms(3) that(2) by blast
    ultimately show ?thesis
      using logistic_function_pos [of v x0 A1 A2 p] by (simp add: evaluate_spec_def)
  qed
  have nz: "x0 \<noteq> 0" if "lower_bounds ?c ! 2 \<le> x0" for x0
    using lo that by linarith
  show ?thesis using cfg lo ev nz by blast
qed

theorem x0_lower_bound_positive_witness:
  "length volumes = length responses \<and> 1 \<le> length volumes \<and> list_all (\<lambda>v. 0 < v) volumes
   \<and> build_fit_config volumes responses =
       Inr \<lparr> initial_guess = [2, 9.2, 200, 1],
             bounds = ([- 5.2, - 5.2, 7.5, 0.1], [16.4, 16.4, 600, 10]) \<rparr>
   \<and> logistic_function 75 2 9.2 7.5 1 = Inr (94 / 11)"
proof -
  have "volumes \<noteq> []" and "responses \<noteq> []"
    by (simp_all add: volumes_def responses_def)
  then have cfg: "build_fit_config volumes responses = Inr (build_spec volumes responses)"
    by (rule build_fit_config_spec)
  have ev: "logistic_function 75 2 9.2 7.5 1 = Inr (94 / 11)"
    by (simp add: logistic_function_def and_then_def py_truediv_def py_pow_def)
  show ?thesis
    using x0_lower_bound_positive [OF sample_lengths(2,3) sample_volumes_pos]
      sample_lengths sample_volumes_pos cfg ev
    by (simp add: sample_config list_all_iff)
qed

text \<open>
  Claim C8, as stated, has a fit-failure kind of error that the caller can tell from the
  insufficient-data kind. The code has one kind for both: a failed optimization and a too
  small dataset each raise a ValueError, and only the message differs.
\<close>

theorem fit_failure_same_class_counterexample:
  "fit_frank_starling_curve curve_fit_gives_up volumes responses
     = Inl (Exn ''ValueError'' ''Curve fitting failed: Optimal parameters not found'')
   \<and> fit_frank_starling_curve curve_fit_gives_up [75, 150] [2, 5]
     = Inl (Exn ''ValueError'' ''Need at least 5 data points'')"
proof -
  have failed: "fit_frank_starling_curve curve_fit_gives_up volumes responses
      = Inl (Exn ''ValueError'' ''Curve fitting failed: Optimal parameters not found'')"
    by (simp add: fit_reaches_optimizer [OF sample_lengths(1,2)] curve_fit_gives_up_def)
  have short: "fit_frank_starling_curve curve_fit_gives_up [75, 150] [2, 5]
      = Inl (Exn ''ValueError'' ''Need at least 5 data points'')"
    by (simp add: fit_frank_starling_curve_def)
  show ?thesis using failed short by simp
qed

text \<open>
  Claim C8, amended: with at least 5 samples, whatever exception the optimizer call raises,
  the fit raises ValueError with the message "Curve fitting failed: " followed by the
  text of that exception, and nothing else escapes: every error the fit raises is a
  ValueError. That is the class of the insufficient-data error too; the two differ by
  their message only, and always do.
\<close>

theorem optimizer_failure_wrapped:
  assumes "5 \<le> length x" and "length x = length y"
  shows "\<exists>c. build_fit_config x y = Inr c
          \<and> (\<forall>e. curve_fit logistic_function_array x y (initial_guess c) (bounds c) 5000 = Inl e
                \<longrightarrow> fit_frank_starling_curve curve_fit x y
                      = Inl (Exn ''ValueError'' (''Curve fitting failed: '' @ exn_str e)))
          \<and> (\<forall>e. fit_frank_starling_curve curve_fit x y = Inl e
                \<longrightarrow> exn_class e = ''ValueError''
                    \<and> e \<noteq> Exn ''ValueError'' ''Need at least 5 data points'')"
proof -
  let ?c = "build_spec x y"
  have ne: "x \<noteq> []" "y \<noteq> []" using assms by auto
  have cfg: "build_fit_config x y = Inr ?c" using ne by (rule build_fit_config_spec)
  note fit = fit_reaches_optimizer [OF assms, of curve_fit]
  have a: "fit_frank_starling_curve curve_fit x y
        = Inl (Exn ''ValueError'' (''Curve fitting failed: '' @ exn_str e))"
    if "curve_fit logistic_function_array x y (initial_guess ?c) (bounds ?c) 5000 = Inl e" for e
    using fit that by simp
  have b: "exn_class e = ''ValueError'' \<and> e \<noteq> Exn ''ValueError'' ''Need at least 5 data points''"
    if "fit_frank_starling_curve curve_fit x y = Inl e" for e
    using fit that by (auto split: sum.splits)
  show ?thesis using cfg a b by blast
qed

theorem optimizer_failure_wrapped_witness:
  "5 \<le> length volumes \<and> length volumes = length responses
   \<and> fit_frank_starling_curve curve_fit_gives_up volumes responses
       = Inl (Exn ''ValueError'' ''Curve fitting failed: Optimal parameters not found'')"
  using optimizer_failure_wrapped [OF sample_lengths(1,2), of curve_fit_gives_up]
    sample_lengths
  by (auto simp: curve_fit_gives_up_def)

text \<open>
  Claim C9: for \<open>p > 0\<close>, \<open>x0 > 0\<close> and \<open>0 < x1 < x2\<close> the curve has a value at both
  points, and the two values are ordered by the sign of \<open>A2 - A1\<close>: strictly increasing
  when \<open>A2 > A1\<close>, strictly decreasing when \<open>A2 < A1\<close>.
\<close>

theorem evaluate_monotonic:
  assumes "0 < p" and "0 < x0" and "0 < x1" and "x1 < x2"
  shows "\<exists>y1 y2. logistic_function x1 A1 A2 x0 p = Inr y1
           \<and> logistic_function x2 A1 A2 x0 p = Inr y2
           \<and> (A1 < A2 \<longrightarrow> y1 < y2) \<and> (A2 < A1 \<longrightarrow> y2 < y1)"
proof -
  have x2: "0 < x2" using assms by linarith
  have q: "0 \<le> x1 / x0" "x1 / x0 < x2 / x0"
    using assms by (simp_all add: divide_strict_right_mono)
  have w: "(x1 / x0) powr p < (x2 / x0) powr p"
    using q assms(1) by (simp add: powr_less_mono2)
  have d1: "0 < 1 + (x1 / x0) powr p"
    by (smt (verit) powr_ge_zero)
  have d: "1 + (x1 / x0) powr p < 1 + (x2 / x0) powr p" using w by simp
  have inc: "A1 < A2 \<longrightarrow> evaluate_spec x1 A1 A2 x0 p < evaluate_spec x2 A1 A2 x0 p"
  proof
    assume "A1 < A2"
    then have "A1 - A2 < 0" by simp
    then have "(A1 - A2) / (1 + (x1 / x0) powr p) < (A1 - A2) / (1 + (x2 / x0) powr p)"
      using d1 d by (simp add: divide_strict_left_mono_neg)
    then show "evaluate_spec x1 A1 A2 x0 p < evaluate_spec x2 A1 A2 x0 p"
      by (simp add: evaluate_spec_def)
  qed
  have dec: "A2 < A1 \<longrightarrow> evaluate_spec x2 A1 A2 x0 p < evaluate_spec x1 A1 A2 x0 p"
  proof
    assume "A2 < A1"
    then have "0 < A1 - A2" by simp
    then have "(A1 - A2) / (1 + (x2 / x0) powr p) < (A1 - A2) / (1 + (x1 / x0) powr p)"
      using d1 d by (simp add: divide_strict_left_mono)
    then show "evaluate_spec x2 A1 A2 x0 p < evaluate_spec x1 A1 A2 x0 p"
      by (simp add: evaluate_spec_def)
  qed
  show ?thesis
    using logistic_function_pos [OF assms(3) assms(2)] logistic_function_pos [OF x2 assms(2)]
      inc dec
    by simp
qed

theorem evaluate_monotonic_witness:
  "(0::real) < 1 \<and> (0::real) < 2 \<and> (2::real) < 6
   \<and> logistic_function 2 1 3 2 1 = Inr 2
   \<and> logistic_function 6 1 3 2 1 = Inr (5 / 2)
   \<and> logistic_function 2 3 1 2 1 = Inr 2
   \<and> logistic_function 6 3 1 2 1 = Inr (3 / 2)"
proof -
  have p: "(0::real) < 1" and x: "(0::real) < 2" and l: "(2::real) < 6" by simp_all
  have a: "logistic_function 2 1 3 2 1 = Inr 2" "logistic_function 6 1 3 2 1 = Inr (5 / 2)"
    "logistic_function 2 3 1 2 1 = Inr 2" "logistic_function 6 3 1 2 1 = Inr (3 / 2)"
    by (simp_all add: logistic_function_def and_then_def py_truediv_def py_pow_def)
  show ?thesis
    using evaluate_monotonic [OF p x x l, of 1 3] evaluate_monotonic [OF p x x l, of 3 1] a
    by simp
qed

text \<open>
  Claim C10: for a dataset of at least 5 samples (x a volume, a non-negative real) with
  all y equal to \<open>k\<close>, the configuration is built without error and is ordered
  (\<open>lower[i] \<le> guess[i] \<le> upper[i]\<close>), the bounds and the guesses of A1 and A2 all
  equal \<open>k\<close>, and the fit goes on to call the optimizer: its result is the optimizer's
  parameters, or the optimizer's exception wrapped as a fit failure.
\<close>

theorem constant_response_reaches_optimizer:
  assumes "5 \<le> length x" and "length x = length y" and "\<forall>v\<in>set y. v = k"
    and "\<forall>v\<in>set x. 0 \<le> v"
  shows "\<exists>c. build_fit_config x y = Inr c
          \<and> length (initial_guess c) = 4 \<and> in_bounds (bounds c) (initial_guess c)
          \<and> take 2 (lower_bounds c) = [k, k] \<and> take 2 (upper_bounds c) = [k, k]
          \<and> take 2 (initial_guess c) = [k, k]
          \<and> fit_frank_starling_curve curve_fit x y =
              (case curve_fit logistic_function_array x y (initial_guess c) (bounds c) 5000 of
                 Inr (params, _) \<Rightarrow> Inr params
               | Inl e \<Rightarrow> Inl (Exn ''ValueError'' (''Curve fitting failed: '' @ exn_str e)))"
proof -
  let ?c = "build_spec x y"
  have ne: "x \<noteq> []" "y \<noteq> []" using assms by auto
  have cfg: "build_fit_config x y = Inr ?c" using ne by (rule build_fit_config_spec)
  have "set y = {k}" using ne(2) assms(3) by (cases y) auto
  then have mm: "Min (set y) = k" "Max (set y) = k" by simp_all
  have col: "take 2 (lower_bounds ?c) = [k, k]" "take 2 (upper_bounds ?c) = [k, k]"
    "take 2 (initial_guess ?c) = [k, k]"
    by (simp_all add: build_spec_def spread_spec_def mm numeral_2_eq_2)
  have len: "length (initial_guess ?c) = 4" by (simp add: build_spec_def)
  show ?thesis
    using cfg len build_spec_in_bounds [OF ne assms(4)] col
      fit_reaches_optimizer [OF assms(1,2), of curve_fit]
    by blast
qed

theorem constant_response_reaches_optimizer_witness:
  "5 \<le> length volumes \<and> length volumes = length [5, 5, 5, 5, 5 :: real]
   \<and> list_all (\<lambda>v. v = 5) [5, 5, 5, 5, 5 :: real] \<and> list_all (\<lambda>v. 0 \<le> v) volumes
   \<and> build_fit_config volumes [5, 5, 5, 5, 5] =
       Inr \<lparr> initial_guess = [5, 5, 200, 1],
             bounds = ([5, 5, 7.5, 0.1], [5, 5, 600, 10]) \<rparr>
   \<and> fit_frank_starling_curve curve_fit_gives_up volumes [5, 5, 5, 5, 5]
       = Inl (Exn ''ValueError'' ''Curve fitting failed: Optimal parameters not found'')"
proof -
  have l: "length volumes = length [5, 5, 5, 5, 5 :: real]" by (simp add: volumes_def)
  have y: "\<forall>v\<in>set [5, 5, 5, 5, 5 :: real]. v = 5" by simp
  have "volumes \<noteq> []" and "[5, 5, 5, 5, 5 :: real] \<noteq> []"
    by (simp_all add: volumes_def)
  then have cfg: "build_fit_config volumes [5, 5, 5, 5, 5]
      = Inr (build_spec volumes [5, 5, 5, 5, 5])"
    by (rule build_fit_config_spec)
  have spec: "build_spec volumes [5, 5, 5, 5, 5] =
      \<lparr> initial_guess = [5, 5, 200, 1], bounds = ([5, 5, 7.5, 0.1], [5, 5, 600, 10]) \<rparr>"
    by (simp add: build_spec_def spread_spec_def median_spec_def volumes_def)
  show ?thesis
    using constant_response_reaches_optimizer [OF sample_lengths(1) l y sample_volumes_nonneg,
        of curve_fit_gives_up]
      sample_lengths(1) l sample_volumes_nonneg cfg
    by (auto simp: spec curve_fit_gives_up_def list_all_iff)
qed

end
